theory Spec2Isabelle
  imports Complex_Main "HOL-Library.Char_ord" "HOL-Library.List_Lexorder"
begin

section \<open>Turkey earthquake dashboard: cleaning pipeline, filter layer, aggregator\<close>

text \<open>
  A shallow embedding of \<^verbatim>\<open>src/app.py\<close>. Table cells are modelled as the data frame
  holds them: a cell of an object column is a \<open>string option\<close> (\<open>None\<close> is the null
  cell), a cell of a numeric column is a \<open>float64\<close> (below), a data frame is the list of
  its rows in index order. A character is a code point below 256; the program treats
  every other character of a Python string like a letter, unless it is a Unicode space.
\<close>

subsection \<open>Python string primitives\<close>

datatype py_error = IndexError

text \<open>
  \<^verbatim>\<open>str.isspace\<close> on one character: the code points below 256 that Python treats as
  whitespace in \<^verbatim>\<open>str.strip()\<close> and \<^verbatim>\<open>str.split()\<close>.
\<close>

definition isspace :: "char \<Rightarrow> bool" where
  "isspace c = (c \<in> {CHR 0x09, CHR 0x0A, CHR 0x0B, CHR 0x0C, CHR 0x0D,
                      CHR 0x1C, CHR 0x1D, CHR 0x1E, CHR 0x1F, CHR 0x20,
                      CHR 0x85, CHR 0xA0})"

text \<open>\<^verbatim>\<open>s.strip()\<close>: drop leading and trailing whitespace.\<close>

definition strip :: "string \<Rightarrow> string" where
  "strip s = rev (dropWhile isspace (rev (dropWhile isspace s)))"

text \<open>
  \<^verbatim>\<open>s.split()\<close> with no argument: the maximal runs of non-whitespace characters, in
  order; empty strings are never produced. \<open>cur\<close> is the token being read.
\<close>

fun split_ws_aux :: "string \<Rightarrow> string \<Rightarrow> string list" where
  "split_ws_aux cur [] = (if cur = [] then [] else [cur])"
| "split_ws_aux cur (c # cs) =
     (if isspace c
      then (if cur = [] then split_ws_aux [] cs else cur # split_ws_aux [] cs)
      else split_ws_aux (cur @ [c]) cs)"

definition split_ws :: "string \<Rightarrow> string list" where
  "split_ws s = split_ws_aux [] s"

text \<open>
  \<^verbatim>\<open>s.split(sep)\<close> for a one-character separator: the segments between occurrences
  of \<open>sep\<close>, empty ones included; the result is never empty.
\<close>

fun split_sep_aux :: "char \<Rightarrow> string \<Rightarrow> string \<Rightarrow> string list" where
  "split_sep_aux sep cur [] = [cur]"
| "split_sep_aux sep cur (c # cs) =
     (if c = sep then cur # split_sep_aux sep [] cs
      else split_sep_aux sep (cur @ [c]) cs)"

definition split_sep :: "char \<Rightarrow> string \<Rightarrow> string list" where
  "split_sep sep s = split_sep_aux sep [] s"

text \<open>\<^verbatim>\<open>xs[0]\<close>: raises \<^verbatim>\<open>IndexError\<close> on the empty list.\<close>

definition index0 :: "'a list \<Rightarrow> py_error + 'a" where
  "index0 xs = (case xs of [] \<Rightarrow> Inl IndexError | x # _ \<Rightarrow> Inr x)"

subsection \<open>The regular expression of the region extractor\<close>

text \<open>
  \<^verbatim>\<open>re.search(r'\(([^)]+)\)', s)\<close>. \<open>re_match_here\<close> is an attempt at one start
  position: an opening parenthesis, then the greedy run \<^verbatim>\<open>[^)]+\<close> (every character up to
  the next closing parenthesis, at least one), then the closing parenthesis. Backtracking
  into the run cannot help, because the character after a shorter run is not a closing
  parenthesis. The result is group 1. \<open>re_search\<close> tries the start positions from left
  to right and returns the first success.
\<close>

definition re_match_here :: "string \<Rightarrow> string option" where
  "re_match_here s =
     (case s of
        [] \<Rightarrow> None
      | c # cs \<Rightarrow>
          if c = CHR ''(''
          then (let body = takeWhile (\<lambda>x. x \<noteq> CHR '')'') cs;
                    rest = dropWhile (\<lambda>x. x \<noteq> CHR '')'') cs
                in if body \<noteq> [] \<and> rest \<noteq> [] then Some body else None)
          else None)"

fun re_search :: "string \<Rightarrow> string option" where
  "re_search [] = None"
| "re_search (c # cs) =
     (case re_match_here (c # cs) of
        Some g \<Rightarrow> Some g
      | None \<Rightarrow> re_search cs)"

subsection \<open>Region extraction\<close>

text \<open>
  \<^verbatim>\<open>extract_region(loc)\<close>, lines 60 to 69. \<open>loc = None\<close> is \<^verbatim>\<open>pd.isna(loc)\<close>; the
  truth value of a string in \<^verbatim>\<open>if loc\<close> is that it is not empty.
\<close>

definition extract_region :: "string option \<Rightarrow> py_error + string" where
  "extract_region loc =
     (case loc of
        None \<Rightarrow> Inr ''Unknown''
      | Some s \<Rightarrow>
          (case re_search s of
             Some g \<Rightarrow> Inr (strip g)
           | None \<Rightarrow>
               (let parts = split_sep (CHR ''-'') s
                in if length parts > 1
                   then index0 (split_ws (strip (last parts)))
                   else if s \<noteq> [] then index0 (split_ws s)
                   else Inr ''Unknown'')))"

subsection \<open>Numeric cells\<close>

text \<open>
  A cell of a \<^verbatim>\<open>float64\<close> column. \<open>NaN\<close> is the null cell of pandas; \<open>Num v\<close> is a
  finite double, identified with the real number it denotes (comparing two doubles is
  exact, and no arithmetic on cells is modelled); the two infinities are the values a
  cell can also hold. A comparison with \<open>NaN\<close> on either side is false.
\<close>

datatype float64 = NaN | NegInf | Num real | PosInf

fun float_le :: "float64 \<Rightarrow> float64 \<Rightarrow> bool" where
  "float_le NaN _ = False"
| "float_le _ NaN = False"
| "float_le NegInf _ = True"
| "float_le _ PosInf = True"
| "float_le (Num a) (Num b) = (a \<le> b)"
| "float_le _ _ = False"

fun float_lt :: "float64 \<Rightarrow> float64 \<Rightarrow> bool" where
  "float_lt NaN _ = False"
| "float_lt _ NaN = False"
| "float_lt (Num a) (Num b) = (a < b)"
| "float_lt PosInf _ = False"
| "float_lt _ NegInf = False"
| "float_lt _ _ = True"

text \<open>
  The column operations of the source, on one cell: \<^verbatim>\<open>col >= c\<close>, \<^verbatim>\<open>col <= c\<close>,
  \<^verbatim>\<open>col > c\<close>, \<^verbatim>\<open>col.between(lo, hi)\<close> (both ends included) and \<^verbatim>\<open>col.notna()\<close>.
\<close>

definition ge :: "float64 \<Rightarrow> real \<Rightarrow> bool" where
  "ge x c = float_le (Num c) x"

definition le :: "float64 \<Rightarrow> real \<Rightarrow> bool" where
  "le x c = float_le x (Num c)"

definition gt :: "float64 \<Rightarrow> real \<Rightarrow> bool" where
  "gt x c = float_lt (Num c) x"

definition between :: "float64 \<Rightarrow> real \<Rightarrow> real \<Rightarrow> bool" where
  "between x lo hi = (float_le (Num lo) x \<and> float_le x (Num hi))"

definition notna :: "float64 \<Rightarrow> bool" where
  "notna x = (x \<noteq> NaN)"

subsection \<open>Date conversion\<close>

text \<open>
  \<^verbatim>\<open>pd.to_datetime(col, format="%Y.%m.%d", errors="coerce")\<close> on one cell. The cell
  parses when it is, as a whole, a four-digit year, a month and a day of one or two
  digits each (the directives \<^verbatim>\<open>%m\<close> and \<^verbatim>\<open>%d\<close> take a number without its leading zero),
  separated by full stops, when it names a day of the calendar, and when the timestamp
  can hold that day. Every other cell, the null cell included, becomes \<open>None\<close> (\<^verbatim>\<open>NaT\<close>):
  with \<^verbatim>\<open>errors="coerce"\<close> nothing is raised. A cell with a character other than a digit or
  a full stop is taken not to parse.

  The timestamp is that of pandas before 3.0, \<^verbatim>\<open>datetime64[ns]\<close>: a 64-bit count of
  nanoseconds since 1970-01-01, whose least value stands for \<^verbatim>\<open>NaT\<close>, so that the first
  midnight it holds is that of 1677-09-22 and the last that of 2262-04-11. The day
  number is computed as Python's \<^verbatim>\<open>date.toordinal\<close> does (0001-01-01 is day 1,
  1970-01-01 is day 719163).
\<close>

record date =
  year :: nat
  month :: nat
  day :: nat

definition is_digit :: "char \<Rightarrow> bool" where
  "is_digit c = (c \<in> set ''0123456789'')"

definition digit_val :: "char \<Rightarrow> nat" where
  "digit_val c = of_char c - 48"

definition digits_val :: "string \<Rightarrow> nat" where
  "digits_val s = foldl (\<lambda>n c. 10 * n + digit_val c) 0 s"

definition is_leap :: "nat \<Rightarrow> bool" where
  "is_leap y = (if y mod 100 = 0 then y mod 400 = 0 else y mod 4 = 0)"

definition days_in_month :: "nat \<Rightarrow> nat \<Rightarrow> nat" where
  "days_in_month y m =
     (if m = 2 then (if is_leap y then 29 else 28)
      else if m \<in> {4, 6, 9, 11} then 30 else 31)"

definition days_before_year :: "nat \<Rightarrow> int" where
  "days_before_year y = (let p = int y - 1 in p * 365 + p div 4 - p div 100 + p div 400)"

definition days_before_month :: "nat \<Rightarrow> nat \<Rightarrow> int" where
  "days_before_month y m = int (sum_list (map (days_in_month y) [1..<m]))"

definition toordinal :: "date \<Rightarrow> int" where
  "toordinal d =
     days_before_year (year d) + days_before_month (year d) (month d) + int (day d)"

definition datetime64_ns :: "date \<Rightarrow> int" where
  "datetime64_ns d = (toordinal d - 719163) * 86400 * 1000000000"

definition in_bounds :: "date \<Rightarrow> bool" where
  "in_bounds d = (- (2 ^ 63) < datetime64_ns d \<and> datetime64_ns d < 2 ^ 63)"

definition to_datetime :: "string option \<Rightarrow> date option" where
  "to_datetime cell =
     (case cell of
        None \<Rightarrow> None
      | Some s \<Rightarrow>
          (case split_sep (CHR ''.'') s of
             [y, m, d] \<Rightarrow>
               if length y = 4 \<and> list_all is_digit y
                  \<and> length m \<in> {1, 2} \<and> list_all is_digit m
                  \<and> length d \<in> {1, 2} \<and> list_all is_digit d
                  \<and> 1 \<le> digits_val m \<and> digits_val m \<le> 12
                  \<and> 1 \<le> digits_val d
                  \<and> digits_val d \<le> days_in_month (digits_val y) (digits_val m)
                  \<and> in_bounds \<lparr>year = digits_val y, month = digits_val m, day = digits_val d\<rparr>
               then Some \<lparr>year = digits_val y, month = digits_val m, day = digits_val d\<rparr>
               else None
           | _ \<Rightarrow> None))"

text \<open>\<^verbatim>\<open>col.dt.year\<close>: the calendar year, null where the date is null.\<close>

definition dt_year :: "date option \<Rightarrow> int option" where
  "dt_year d = map_option (\<lambda>x. int (year x)) d"

text \<open>\<^verbatim>\<open>col.fillna(v)\<close> on one cell.\<close>

definition fillna :: "string option \<Rightarrow> string \<Rightarrow> string option" where
  "fillna cell v = (case cell of None \<Rightarrow> Some v | Some s \<Rightarrow> Some s)"

subsection \<open>Loading and cleaning\<close>

text \<open>
  A row of the CSV file (the columns the program reads, under their names in the file;
  \<open>raw_xM\<close> is the column \<^verbatim>\<open>xM\<close>), a row of the frame after the renaming and the date
  conversion, and a row of the cleaned frame, which has the \<open>Region\<close> column as well.
\<close>

record raw_row =
  Olus_tarihi :: "string option"
  Enlem :: float64
  Boylam :: float64
  Derinlik :: float64
  raw_xM :: float64
  Yer :: "string option"

record row =
  Date :: "date option"
  Year :: "int option"
  Latitude :: float64
  Longitude :: float64
  Depth :: float64
  xM :: float64
  Location :: "string option"

record crow = row +
  Region :: "string option"

text \<open>Lines 32 to 45: renaming, date conversion, year, missing locations.\<close>

definition rename_and_convert :: "raw_row \<Rightarrow> row" where
  "rename_and_convert r =
     \<lparr>Date = to_datetime (Olus_tarihi r),
      Year = dt_year (to_datetime (Olus_tarihi r)),
      Latitude = Enlem r,
      Longitude = Boylam r,
      Depth = Derinlik r,
      xM = raw_xM r,
      Location = fillna (Yer r) ''Unknown''\<rparr>"

text \<open>Lines 48 to 53: the coordinate mask.\<close>

definition coordinate_mask :: "row \<Rightarrow> bool" where
  "coordinate_mask r =
     (between (Latitude r) 35 43 \<and> between (Longitude r) 25 45
      \<and> notna (Latitude r) \<and> notna (Longitude r))"

text \<open>
  Line 71: \<^verbatim>\<open>df["Location"].apply(extract_region)\<close>, row by row in index order; the
  first exception ends the whole call.
\<close>

definition with_region :: "row \<Rightarrow> string \<Rightarrow> crow" where
  "with_region r g =
     \<lparr>Date = Date r, Year = Year r, Latitude = Latitude r, Longitude = Longitude r,
      Depth = Depth r, xM = xM r, Location = Location r, Region = Some g\<rparr>"

fun apply_extract_region :: "row list \<Rightarrow> py_error + crow list" where
  "apply_extract_region [] = Inr []"
| "apply_extract_region (r # rs) =
     (case extract_region (Location r) of
        Inl e \<Rightarrow> Inl e
      | Inr g \<Rightarrow>
          (case apply_extract_region rs of
             Inl e \<Rightarrow> Inl e
           | Inr cs \<Rightarrow> Inr (with_region r g # cs)))"

text \<open>\<^verbatim>\<open>load_and_preprocess_data\<close>, lines 28 to 72, from the rows read from the file.\<close>

definition load_and_preprocess_data :: "raw_row list \<Rightarrow> py_error + crow list" where
  "load_and_preprocess_data csv =
     (let df = map rename_and_convert csv;
          df = filter coordinate_mask df;
          df = filter (\<lambda>r. ge (Depth r) 0) df;
          df = filter (\<lambda>r. gt (xM r) 0) df
      in apply_extract_region df)"

subsection \<open>The sidebar filters\<close>

text \<open>
  The values of the four sidebar widgets, and lines 113 to 123. A comparison of a null
  year is false, as for every null cell.
\<close>

record widgets =
  year_range :: "int \<times> int"
  mag_range :: "real \<times> real"
  depth_range :: "real \<times> real"
  show_large_only :: bool

definition year_ge :: "int option \<Rightarrow> int \<Rightarrow> bool" where
  "year_ge y c = (case y of None \<Rightarrow> False | Some v \<Rightarrow> c \<le> v)"

definition year_le :: "int option \<Rightarrow> int \<Rightarrow> bool" where
  "year_le y c = (case y of None \<Rightarrow> False | Some v \<Rightarrow> v \<le> c)"

definition range_mask :: "widgets \<Rightarrow> crow \<Rightarrow> bool" where
  "range_mask w r =
     (year_ge (Year r) (fst (year_range w)) \<and> year_le (Year r) (snd (year_range w))
      \<and> ge (xM r) (fst (mag_range w)) \<and> le (xM r) (snd (mag_range w))
      \<and> ge (Depth r) (fst (depth_range w)) \<and> le (Depth r) (snd (depth_range w)))"

definition df_filtered :: "widgets \<Rightarrow> crow list \<Rightarrow> crow list" where
  "df_filtered w df =
     (let v = filter (range_mask w) df
      in if show_large_only w then filter (\<lambda>r. ge (xM r) 5.0) v else v)"

subsection \<open>Regional statistics\<close>

text \<open>
  Lines 184 to 189 and the \<^verbatim>\<open>nlargest(25, "Count")\<close> of line 199. \<^verbatim>\<open>groupby("Region")\<close>
  makes one group for each region that occurs, in increasing order of the region
  (null keys have no group); \<^verbatim>\<open>count\<close> counts the rows of the group whose magnitude is
  not null. The mean and maximum columns are floating-point aggregates that only colour
  the chart; they decide nothing about which groups are kept and are left out.
\<close>

record region_stats =
  stats_Region :: string
  Count :: nat

definition group_keys :: "crow list \<Rightarrow> string list" where
  "group_keys df = sort (remdups (List.map_filter Region df))"

definition group_count :: "crow list \<Rightarrow> string \<Rightarrow> nat" where
  "group_count df g = length (filter (\<lambda>r. Region r = Some g \<and> notna (xM r)) df)"

definition groupby_agg :: "crow list \<Rightarrow> region_stats list" where
  "groupby_agg df = map (\<lambda>g. \<lparr>stats_Region = g, Count = group_count df g\<rparr>) (group_keys df)"

definition df_region_stats :: "crow list \<Rightarrow> region_stats list" where
  "df_region_stats df = filter (\<lambda>s. Count s \<ge> 10) (groupby_agg df)"

text \<open>
  \<^verbatim>\<open>frame.nlargest(n, "Count")\<close>: the \<open>n\<close> rows of largest count, in decreasing order of
  count, rows of equal count in frame order (\<^verbatim>\<open>keep="first"\<close>, the default). The
  properties below speak of counts only and hold for any order among equal counts.
\<close>

definition nlargest :: "nat \<Rightarrow> region_stats list \<Rightarrow> region_stats list" where
  "nlargest n stats = take n (sort_key (\<lambda>s. - int (Count s)) stats)"

definition treemap_rows :: "crow list \<Rightarrow> region_stats list" where
  "treemap_rows df = nlargest 25 (df_region_stats df)"

subsection \<open>The rules of the region extractor in the words of the specification\<close>

text \<open>
  The specification names three things that the source computes through a regular
  expression and the split functions. They are defined here independently, from its
  words, and the extractor is compared with them below.

  Text enclosed in parentheses, opening at position \<open>i\<close>: position \<open>i\<close> holds an opening
  parenthesis, a closing parenthesis follows, and the text between them is not empty.
  The first parenthetical group is the one that opens first.
\<close>

definition spec_group_at :: "string \<Rightarrow> nat \<Rightarrow> string option" where
  "spec_group_at s i =
     (if i < length s \<and> s ! i = CHR ''(''
      then (let txt = takeWhile (\<lambda>x. x \<noteq> CHR '')'') (drop (Suc i) s)
            in if txt \<noteq> [] \<and> Suc i + length txt < length s then Some txt else None)
      else None)"

definition spec_first_group :: "string \<Rightarrow> string option" where
  "spec_first_group s =
     (case List.find (\<lambda>i. spec_group_at s i \<noteq> None) [0..<length s] of
        None \<Rightarrow> None
      | Some i \<Rightarrow> spec_group_at s i)"

text \<open>
  The first whitespace-delimited token: skip the leading whitespace, then read up to the
  next whitespace; there is none when nothing is read.
\<close>

definition spec_first_token :: "string \<Rightarrow> string option" where
  "spec_first_token s =
     (let t = takeWhile (\<lambda>c. \<not> isspace c) (dropWhile isspace s)
      in if t = [] then None else Some t)"

text \<open>The last segment: the text after the last separator.\<close>

definition spec_last_segment :: "char \<Rightarrow> string \<Rightarrow> string" where
  "spec_last_segment sep s = rev (takeWhile (\<lambda>c. c \<noteq> sep) (rev s))"

subsection \<open>The quality gates in the words of the specification\<close>


subsection \<open>The date template in the words of the specification\<close>


subsection \<open>Sample data\<close>

text \<open>
  A small file: a good row, a row whose date is written in another format and whose
  location is missing, a row of negative depth, and a row without latitude; and the
  cleaned frame the program makes of it.
\<close>

definition sample_csv :: "raw_row list" where
  "sample_csv =
     [\<lparr>Olus_tarihi = Some ''2023.02.06'', Enlem = Num 37.2, Boylam = Num 37.0,
       Derinlik = Num 8.6, raw_xM = Num 7.7, Yer = Some ''Kahramanmaras (Pazarcik)''\<rparr>,
      \<lparr>Olus_tarihi = Some ''06-02-2023'', Enlem = Num 38.0, Boylam = Num 37.2,
       Derinlik = Num 7, raw_xM = Num 7.6, Yer = None\<rparr>,
      \<lparr>Olus_tarihi = Some ''1999.08.17'', Enlem = Num 40.7, Boylam = Num 29.9,
       Derinlik = Num (-1), raw_xM = Num 7.4, Yer = Some ''Kocaeli-Golcuk''\<rparr>,
      \<lparr>Olus_tarihi = Some ''2011.10.23'', Enlem = NaN, Boylam = Num 43.4,
       Derinlik = Num 5, raw_xM = Num 7.2, Yer = Some ''Van (Ercis)''\<rparr>]"

definition sample_df :: "crow list" where
  "sample_df =
     [\<lparr>Date = Some \<lparr>year = 2023, month = 2, day = 6\<rparr>, Year = Some 2023,
       Latitude = Num 37.2, Longitude = Num 37.0, Depth = Num 8.6, xM = Num 7.7,
       Location = Some ''Kahramanmaras (Pazarcik)'', Region = Some ''Pazarcik''\<rparr>,
      \<lparr>Date = None, Year = None,
       Latitude = Num 38.0, Longitude = Num 37.2, Depth = Num 7, xM = Num 7.6,
       Location = Some ''Unknown'', Region = Some ''Unknown''\<rparr>]"

text \<open>
  Two filtered views made of copies of one event in different regions: one with a region
  of nine rows and a region of ten, one with twenty-six regions of ten rows or more.
\<close>

definition sample_quake :: "string \<Rightarrow> crow" where
  "sample_quake g =
     \<lparr>Date = Some \<lparr>year = 2020, month = 1, day = 24\<rparr>, Year = Some 2020,
      Latitude = Num 38.4, Longitude = Num 39.1, Depth = Num 10, xM = Num 4.1,
      Location = Some g, Region = Some g\<rparr>"

definition small_view :: "crow list" where
  "small_view = replicate 9 (sample_quake ''Golcuk'') @ replicate 10 (sample_quake ''Ercis'')"

definition wide_view :: "crow list" where
  "wide_view =
     concat (map (\<lambda>g. replicate 10 (sample_quake g))
       [''Adana'', ''Agri'', ''Amasya'', ''Ankara'', ''Antalya'', ''Aydin'', ''Balikesir'',
        ''Bingol'', ''Bitlis'', ''Bolu'', ''Burdur'', ''Bursa'', ''Canakkale'', ''Denizli'',
        ''Duzce'', ''Elazig'', ''Erzincan'', ''Erzurum'', ''Hakkari'', ''Hatay'', ''Izmir'',
        ''Kutahya'', ''Malatya'', ''Manisa'', ''Mugla'', ''Van''])
     @ [sample_quake ''Van'']"

section \<open>Properties\<close>

subsection \<open>The string primitives and the regular expression\<close>

text \<open>
  The search of the regular expression finds the first parenthetical group; the first
  element of \<^verbatim>\<open>split()\<close> is the first token; \<^verbatim>\<open>split('-')\<close> has two or more segments
  exactly when the string has a hyphen, and its last element is the last segment.
\<close>

lemma re_match_here_drop:
  "i < length s \<Longrightarrow> re_match_here (drop i s) = spec_group_at s i"
proof -
  assume i: "i < length s"
  let ?P = "\<lambda>x. x \<noteq> CHR '')''"
  let ?t = "drop (Suc i) s"
  have d: "drop i s = s ! i # ?t" using i by (simp add: Cons_nth_drop_Suc)
  have "length (takeWhile ?P ?t) + length (dropWhile ?P ?t) = length ?t"
    by (metis length_append takeWhile_dropWhile_id)
  then have "(dropWhile ?P ?t \<noteq> []) = (Suc i + length (takeWhile ?P ?t) < length s)"
    using i by (cases "dropWhile ?P ?t") auto
  then show ?thesis
    unfolding re_match_here_def spec_group_at_def d using i by (simp add: Let_def)
qed

lemma spec_group_at_Cons_Suc: "spec_group_at (c # cs) (Suc i) = spec_group_at cs i"
  by (simp add: spec_group_at_def)

lemma spec_group_at_0: "spec_group_at (c # cs) 0 = re_match_here (c # cs)"
  using re_match_here_drop [of 0 "c # cs"] by simp

lemma find_map_Suc:
  "List.find P (map Suc xs) = map_option Suc (List.find (\<lambda>i. P (Suc i)) xs)"
  by (induction xs) auto

lemma re_search_spec: "re_search s = spec_first_group s"
proof (induction s)
  case Nil
  show ?case by (simp add: spec_first_group_def)
next
  case (Cons c cs)
  have u: "[0..<length (c # cs)] = 0 # map Suc [0..<length cs]"
    by (simp add: upt_conv_Cons map_Suc_upt del: upt_Suc)
  show ?case
    unfolding spec_first_group_def u
    using Cons.IH
    by (simp add: spec_group_at_0 spec_group_at_Cons_Suc find_map_Suc spec_first_group_def
        split: option.splits)
qed

text \<open>
  What a parenthetical group is, without indices: the string is a prefix of length \<open>i\<close>,
  an opening parenthesis, the non-empty text \<open>g\<close> free of closing parentheses, a closing
  parenthesis, and a suffix.
\<close>

lemma spec_group_at_iff:
  "spec_group_at s i = Some g \<longleftrightarrow>
     (\<exists>pre post. s = pre @ CHR ''('' # g @ CHR '')'' # post \<and> length pre = i
        \<and> g \<noteq> [] \<and> CHR '')'' \<notin> set g)"
proof
  let ?P = "\<lambda>x. x \<noteq> CHR '')''"
  assume a: "spec_group_at s i = Some g"
  then have i: "i < length s" and op: "s ! i = CHR ''(''"
    by (auto simp: spec_group_at_def split: if_splits)
  from a i op have g: "g = takeWhile ?P (drop (Suc i) s)" and ne: "g \<noteq> []"
    and len: "Suc i + length g < length s"
    by (auto simp: spec_group_at_def Let_def split: if_splits)
  define r where "r = dropWhile ?P (drop (Suc i) s)"
  have split: "drop (Suc i) s = g @ r"
    unfolding g r_def by simp
  have "length (drop (Suc i) s) = length g + length r"
    using split by simp
  then have "r \<noteq> []" using len by auto
  then have "hd r = CHR '')''"
    unfolding r_def using hd_dropWhile [of ?P "drop (Suc i) s"] by auto
  with \<open>r \<noteq> []\<close> have r: "r = CHR '')'' # tl r" by (cases r) auto
  have "s = take i s @ s ! i # drop (Suc i) s"
    using i by (simp add: id_take_nth_drop [symmetric])
  then have "s = take i s @ CHR ''('' # g @ CHR '')'' # tl r"
    using op split r by simp
  moreover have "length (take i s) = i" using i by simp
  moreover have "CHR '')'' \<notin> set g"
    unfolding g using set_takeWhileD [of "CHR '')''" ?P] by blast
  ultimately show "\<exists>pre post. s = pre @ CHR ''('' # g @ CHR '')'' # post \<and> length pre = i
        \<and> g \<noteq> [] \<and> CHR '')'' \<notin> set g"
    using ne by blast
next
  let ?P = "\<lambda>x. x \<noteq> CHR '')''"
  assume "\<exists>pre post. s = pre @ CHR ''('' # g @ CHR '')'' # post \<and> length pre = i
        \<and> g \<noteq> [] \<and> CHR '')'' \<notin> set g"
  then obtain pre post where s: "s = pre @ CHR ''('' # g @ CHR '')'' # post"
    and i: "length pre = i" and ne: "g \<noteq> []" and no: "CHR '')'' \<notin> set g"
    by blast
  have "takeWhile ?P (g @ CHR '')'' # post) = g @ takeWhile ?P (CHR '')'' # post)"
    using no by (intro takeWhile_append2) auto
  then have "takeWhile ?P (drop (Suc i) s) = g"
    using s i by simp
  moreover have "i < length s" and "s ! i = CHR ''(''" and "Suc i + length g < length s"
    using s i by (auto simp: nth_append)
  ultimately show "spec_group_at s i = Some g"
    using ne by (simp add: spec_group_at_def)
qed

lemma split_ws_aux_nonempty_cur:
  "cur \<noteq> [] \<Longrightarrow>
   split_ws_aux cur s =
     (cur @ takeWhile (\<lambda>c. \<not> isspace c) s) # split_ws_aux [] (dropWhile (\<lambda>c. \<not> isspace c) s)"
  by (induction s arbitrary: cur) auto

lemma split_ws_aux_Nil:
  "split_ws_aux [] s =
     (let s' = dropWhile isspace s
      in if s' = [] then []
         else takeWhile (\<lambda>c. \<not> isspace c) s' # split_ws_aux [] (dropWhile (\<lambda>c. \<not> isspace c) s'))"
proof (induction s)
  case Nil
  show ?case by simp
next
  case (Cons c cs)
  show ?case
  proof (cases "isspace c")
    case True
    then show ?thesis using Cons.IH by simp
  next
    case False
    then show ?thesis by (simp add: split_ws_aux_nonempty_cur)
  qed
qed

lemma index0_split_ws:
  "index0 (split_ws s) = (case spec_first_token s of None \<Rightarrow> Inl IndexError | Some t \<Rightarrow> Inr t)"
proof (cases "dropWhile isspace s")
  case Nil
  have "split_ws s = []"
    unfolding split_ws_def by (subst split_ws_aux_Nil) (simp add: Nil)
  moreover have "spec_first_token s = None"
    unfolding spec_first_token_def Nil by simp
  ultimately show ?thesis by (simp add: index0_def)
next
  case (Cons c cs)
  then have "\<not> isspace c" using hd_dropWhile [of isspace s] by auto
  with Cons show ?thesis
    by (subst split_ws_def, subst split_ws_aux_Nil) (simp add: spec_first_token_def index0_def)
qed

lemma length_split_sep_aux:
  "length (split_sep_aux sep cur s) = Suc (count_list s sep)"
  by (induction s arbitrary: cur) auto

lemma length_split_sep: "(1 < length (split_sep sep s)) = (sep \<in> set s)"
  using count_list_0_iff [of s sep] by (auto simp: split_sep_def length_split_sep_aux)

lemma last_split_sep_aux:
  "last (split_sep_aux sep cur s) =
     (if sep \<in> set s then spec_last_segment sep s else cur @ s)"
proof (induction s arbitrary: cur)
  case Nil
  show ?case by simp
next
  case (Cons c cs)
  have ne: "split_sep_aux d x cs \<noteq> []" for d x
    using length_split_sep_aux [of d x cs] by auto
  show ?case
  proof (cases "sep \<in> set cs")
    case True
    then have "spec_last_segment sep (c # cs) = spec_last_segment sep cs"
      by (simp add: spec_last_segment_def takeWhile_append1)
    then show ?thesis using True Cons.IH ne by simp
  next
    case False
    then have "takeWhile (\<lambda>x. x \<noteq> sep) (rev cs @ [c]) = rev cs @ takeWhile (\<lambda>x. x \<noteq> sep) [c]"
      by (intro takeWhile_append2) auto
    then have "spec_last_segment sep (c # cs) = (if c = sep then cs else c # cs)"
      by (simp add: spec_last_segment_def)
    then show ?thesis using False Cons.IH ne by (cases "c = sep") simp_all
  qed
qed

lemma last_split_sep:
  "sep \<in> set s \<Longrightarrow> last (split_sep sep s) = spec_last_segment sep s"
  by (simp add: split_sep_def last_split_sep_aux)

subsection \<open>Region extraction\<close>

text \<open>The extractor on a non-null string, case by case.\<close>

lemma extract_region_spec:
  "extract_region (Some s) =
     (case spec_first_group s of
        Some g \<Rightarrow> Inr (strip g)
      | None \<Rightarrow>
          if CHR ''-'' \<in> set s
          then (case spec_first_token (strip (spec_last_segment (CHR ''-'') s)) of
                  None \<Rightarrow> Inl IndexError | Some t \<Rightarrow> Inr t)
          else if s \<noteq> [] then (case spec_first_token s of
                  None \<Rightarrow> Inl IndexError | Some t \<Rightarrow> Inr t)
          else Inr ''Unknown'')"
proof (cases "spec_first_group s")
  case (Some g)
  then show ?thesis by (simp add: extract_region_def re_search_spec)
next
  case None
  show ?thesis
  proof (cases "CHR ''-'' \<in> set s")
    case True
    then have "length (split_sep (CHR ''-'') s) > 1" using length_split_sep by blast
    then show ?thesis
      using None True
      by (simp add: extract_region_def re_search_spec last_split_sep index0_split_ws)
  next
    case False
    then have "\<not> length (split_sep (CHR ''-'') s) > 1" using length_split_sep by blast
    then show ?thesis
      using None False
      by (simp add: extract_region_def re_search_spec index0_split_ws)
  qed
qed

text \<open>
  C2. On a non-null location string the rules apply in strict priority order. If the
  string has a parenthetical group, the result is the trimmed text of the first one,
  whatever else the string holds (hyphens, later groups). Otherwise, if the string has a
  hyphen (so that splitting on it gives two or more segments), the result is the first
  whitespace-delimited token of the trimmed last segment. Otherwise it is the first
  whitespace-delimited token of the whole string.
\<close>

theorem extract_region_rule_priority:
  "(spec_first_group s = Some g \<longrightarrow> extract_region (Some s) = Inr (strip g))
   \<and> (spec_first_group s = None \<and> CHR ''-'' \<in> set s
        \<and> spec_first_token (strip (spec_last_segment (CHR ''-'') s)) = Some t
      \<longrightarrow> extract_region (Some s) = Inr t)
   \<and> (spec_first_group s = None \<and> CHR ''-'' \<notin> set s \<and> spec_first_token s = Some t
      \<longrightarrow> extract_region (Some s) = Inr t)"
proof -
  have "spec_first_token s = Some t \<Longrightarrow> s \<noteq> []"
    by (auto simp: spec_first_token_def)
  then show ?thesis
    by (auto simp: extract_region_spec)
qed

theorem extract_region_rule_priority_witness:
  "spec_first_group ''Izmir-Seferihisar () (Ege Denizi ) (KUSADASI)'' = Some ''Ege Denizi ''
   \<and> extract_region (Some ''Izmir-Seferihisar () (Ege Denizi ) (KUSADASI)'') = Inr ''Ege Denizi''
   \<and> spec_first_group ''Van - Ercis Merkez'' = None
   \<and> CHR ''-'' \<in> set ''Van - Ercis Merkez''
   \<and> spec_first_token (strip (spec_last_segment (CHR ''-'') ''Van - Ercis Merkez'')) = Some ''Ercis''
   \<and> extract_region (Some ''Van - Ercis Merkez'') = Inr ''Ercis''
   \<and> spec_first_group ''  Mugla Datca'' = None
   \<and> CHR ''-'' \<notin> set ''  Mugla Datca''
   \<and> spec_first_token ''  Mugla Datca'' = Some ''Mugla''
   \<and> extract_region (Some ''  Mugla Datca'') = Inr ''Mugla''"
proof -
  have a: "spec_first_group ''Izmir-Seferihisar () (Ege Denizi ) (KUSADASI)'' = Some ''Ege Denizi ''"
    by (simp add: spec_first_group_def spec_group_at_def upt_conv_Cons)
  have a': "strip ''Ege Denizi '' = ''Ege Denizi''"
    by (simp add: strip_def isspace_def)
  have b1: "spec_first_group ''Van - Ercis Merkez'' = None"
    by (simp add: spec_first_group_def spec_group_at_def upt_conv_Cons)
  have b2: "CHR ''-'' \<in> set ''Van - Ercis Merkez''" by simp
  have b3: "spec_first_token (strip (spec_last_segment (CHR ''-'') ''Van - Ercis Merkez'')) = Some ''Ercis''"
    by (simp add: spec_first_token_def strip_def spec_last_segment_def isspace_def)
  have c1: "spec_first_group ''  Mugla Datca'' = None"
    by (simp add: spec_first_group_def spec_group_at_def upt_conv_Cons)
  have c2: "CHR ''-'' \<notin> set ''  Mugla Datca''" by simp
  have c3: "spec_first_token ''  Mugla Datca'' = Some ''Mugla''"
    by (simp add: spec_first_token_def isspace_def)
  show ?thesis
    using extract_region_rule_priority [of "''Izmir-Seferihisar () (Ege Denizi ) (KUSADASI)''" "''Ege Denizi ''"]
      extract_region_rule_priority [of "''Van - Ercis Merkez''" _ "''Ercis''"]
      extract_region_rule_priority [of "''  Mugla Datca''" _ "''Mugla''"]
      a a' b1 b2 b3 c1 c2 c3
    by simp
qed

text \<open>
  C3. The degenerate inputs. The empty string gives \<open>Unknown\<close>. A string that ends in a
  hyphen and a string of whitespace only leave no token to take, and the extractor stops
  with \<^verbatim>\<open>IndexError\<close> instead of returning a label. Parentheses around whitespace
  give the empty label.
\<close>

theorem extract_region_degenerate:
  "extract_region (Some '''') = Inr ''Unknown''
   \<and> extract_region (Some ''Malatya-'') = Inl IndexError
   \<and> extract_region (Some '' '') = Inl IndexError
   \<and> extract_region (Some ''Van ( )'') = Inr ''''"
  by (simp add: extract_region_def re_match_here_def split_sep_def split_ws_def
      strip_def isspace_def index0_def)

text \<open>
  C4. The three worked examples of the region extractor: \<open>Van (Ercis)\<close> gives \<open>Ercis\<close>,
  \<open>Malatya-Doganyol\<close> gives \<open>Doganyol\<close>, and \<open>Hakkari Yuksekova\<close> gives \<open>Hakkari\<close>.
\<close>

theorem extract_region_examples:
  "extract_region (Some ''Van (Ercis)'') = Inr ''Ercis''
   \<and> extract_region (Some ''Malatya-Doganyol'') = Inr ''Doganyol''
   \<and> extract_region (Some ''Hakkari Yuksekova'') = Inr ''Hakkari''"
  by (simp add: extract_region_def re_match_here_def split_sep_def split_ws_def
      strip_def isspace_def index0_def)

subsection \<open>The cleaned dataset\<close>

lemma apply_extract_region_from:
  "apply_extract_region rs = Inr cs \<Longrightarrow> c \<in> set cs \<Longrightarrow>
   \<exists>r\<in>set rs. \<exists>g. extract_region (Location r) = Inr g \<and> c = with_region r g"
proof (induction rs arbitrary: cs)
  case Nil
  then show ?case by simp
next
  case (Cons r rs)
  then show ?case by (fastforce split: sum.splits)
qed


lemma between_notna: "between x lo hi \<and> notna x \<longleftrightarrow> (\<exists>v. x = Num v \<and> lo \<le> v \<and> v \<le> hi)"
  by (cases x) (auto simp: between_def notna_def)


text \<open>The definitions that evaluate the date conversion on a given cell.\<close>

lemmas date_eval = to_datetime_def split_sep_def is_digit_def digits_val_def digit_val_def
  days_in_month_def is_leap_def in_bounds_def datetime64_ns_def toordinal_def
  days_before_year_def days_before_month_def upt_conv_Cons

lemma to_datetime_template: "to_datetime (Some ''2023.02.06'') = Some \<lparr>year = 2023, month = 2, day = 6\<rparr>"
  by (simp add: date_eval)

lemma to_datetime_other: "to_datetime (Some ''06-02-2023'') = None"
  by (simp add: to_datetime_def split_sep_def)

lemma load_sample: "load_and_preprocess_data sample_csv = Inr sample_df"
  by (simp add: load_and_preprocess_data_def sample_csv_def sample_df_def
      rename_and_convert_def to_datetime_template to_datetime_other dt_year_def fillna_def
      coordinate_mask_def between_def notna_def ge_def gt_def with_region_def
      extract_region_def re_match_here_def split_sep_def split_ws_def strip_def isspace_def
      index0_def)











text \<open>
  C1. Every row of the cleaned dataset that the load-and-clean pipeline produces has a
  latitude that is not null and lies in \<open>[35, 43]\<close>, a longitude that is not null and lies
  in \<open>[25, 45]\<close>, a depth that is not null and at least \<open>0\<close>, a magnitude that is not null
  and above \<open>0\<close>, and a region that is not null.
\<close>

theorem cleaned_dataset_invariants:
  assumes "load_and_preprocess_data csv = Inr df" and "r \<in> set df"
  shows "(\<exists>v. Latitude r = Num v \<and> 35 \<le> v \<and> v \<le> 43)
         \<and> (\<exists>v. Longitude r = Num v \<and> 25 \<le> v \<and> v \<le> 45)
         \<and> Depth r \<noteq> NaN \<and> float_le (Num 0) (Depth r)
         \<and> xM r \<noteq> NaN \<and> float_lt (Num 0) (xM r)
         \<and> Region r \<noteq> None"
proof -
  let ?kept = "filter (\<lambda>r. gt (xM r) 0) (filter (\<lambda>r. ge (Depth r) 0)
                 (filter coordinate_mask (map rename_and_convert csv)))"
  have "apply_extract_region ?kept = Inr df"
    using assms(1) by (simp add: load_and_preprocess_data_def)
  from apply_extract_region_from [OF this assms(2)]
  obtain r0 g where r0: "r0 \<in> set ?kept" and r: "r = with_region r0 g"
    by blast
  from r0 have m: "coordinate_mask r0" and d: "ge (Depth r0) 0" and x: "gt (xM r0) 0"
    by auto
  from m have "between (Latitude r0) 35 43 \<and> notna (Latitude r0)"
    and "between (Longitude r0) 25 45 \<and> notna (Longitude r0)"
    by (auto simp: coordinate_mask_def)
  then have "\<exists>v. Latitude r0 = Num v \<and> 35 \<le> v \<and> v \<le> 43"
    and "\<exists>v. Longitude r0 = Num v \<and> 25 \<le> v \<and> v \<le> 45"
    by (simp_all only: between_notna)
  moreover have "Depth r0 \<noteq> NaN \<and> float_le (Num 0) (Depth r0)"
    using d by (cases "Depth r0") (auto simp: ge_def)
  moreover have "xM r0 \<noteq> NaN \<and> float_lt (Num 0) (xM r0)"
    using x by (cases "xM r0") (auto simp: gt_def)
  ultimately show ?thesis
    unfolding r by (simp add: with_region_def)
qed

theorem cleaned_dataset_invariants_witness:
  "load_and_preprocess_data sample_csv = Inr sample_df
   \<and> sample_df ! 1 \<in> set sample_df
   \<and> (\<exists>v. Latitude (sample_df ! 1) = Num v \<and> 35 \<le> v \<and> v \<le> 43)
   \<and> (\<exists>v. Longitude (sample_df ! 1) = Num v \<and> 25 \<le> v \<and> v \<le> 45)
   \<and> Depth (sample_df ! 1) \<noteq> NaN \<and> float_le (Num 0) (Depth (sample_df ! 1))
   \<and> xM (sample_df ! 1) \<noteq> NaN \<and> float_lt (Num 0) (xM (sample_df ! 1))
   \<and> Region (sample_df ! 1) \<noteq> None"
proof -
  have m: "sample_df ! 1 \<in> set sample_df"
    by (simp add: sample_df_def)
  show ?thesis
    using cleaned_dataset_invariants [OF load_sample m] load_sample m by blast
qed




subsection \<open>The sidebar filters\<close>

lemma mag_large_only:
  "(ge x 3.5 \<and> le x 9.0) \<and> ge x 5.0 \<longleftrightarrow> ge x 5.0 \<and> le x 9.0"
  by (cases x) (auto simp: ge_def le_def)

text \<open>
  C5. For every dataset, year range and depth range, the filter layer run with the
  magnitude range \<open>[3.5, 9.0]\<close> and the large-only flag set returns the same rows as the
  filter layer run with the magnitude range \<open>[5.0, 9.0]\<close> and the flag unset.
\<close>

theorem large_only_is_magnitude_floor:
  "df_filtered \<lparr>year_range = yr, mag_range = (3.5, 9.0), depth_range = dr,
                show_large_only = True\<rparr> df
   = df_filtered \<lparr>year_range = yr, mag_range = (5.0, 9.0), depth_range = dr,
                  show_large_only = False\<rparr> df"
proof -
  have "(range_mask \<lparr>year_range = yr, mag_range = (3.5, 9.0), depth_range = dr,
                show_large_only = True\<rparr> r \<and> ge (xM r) 5.0)
        = range_mask \<lparr>year_range = yr, mag_range = (5.0, 9.0), depth_range = dr,
                  show_large_only = False\<rparr> r" for r
    using mag_large_only [of "xM r"] by (auto simp: range_mask_def)
  then show ?thesis
    by (simp add: df_filtered_def Let_def)
qed

text \<open>
  C6. The filter layer is idempotent: for every dataset and every setting of the four
  widgets, filtering the filtered view again with the same setting returns it unchanged.
\<close>

theorem df_filtered_idempotent:
  "df_filtered w (df_filtered w df) = df_filtered w df"
  by (auto simp: df_filtered_def Let_def intro: filter_cong)

text \<open>
  C10. A row whose year is null is in no filtered view, whatever the year range and the
  other widgets: the null year fails both comparisons of the year mask. Such rows do
  occur in the cleaned dataset, as the sample file shows.
\<close>

theorem null_year_never_shown:
  "r \<in> set df \<Longrightarrow> Year r = None \<Longrightarrow> r \<notin> set (df_filtered w df)"
  by (auto simp: df_filtered_def Let_def range_mask_def year_ge_def)

theorem null_year_never_shown_witness:
  "load_and_preprocess_data sample_csv = Inr sample_df
   \<and> sample_df ! 1 \<in> set sample_df
   \<and> Year (sample_df ! 1) = None
   \<and> sample_df ! 1 \<notin> set (df_filtered \<lparr>year_range = (1915, 2024), mag_range = (0, 10),
        depth_range = (0, 200), show_large_only = False\<rparr> sample_df)"
proof -
  have m: "sample_df ! 1 \<in> set sample_df" and y: "Year (sample_df ! 1) = None"
    by (simp_all add: sample_df_def)
  show ?thesis
    using null_year_never_shown [OF m y] load_sample m y by simp
qed

subsection \<open>Regional statistics\<close>

lemma set_map_filter_iff:
  "y \<in> set (List.map_filter f xs) \<longleftrightarrow> (\<exists>x\<in>set xs. f x = Some y)"
  by (induction xs) (auto split: option.splits)

lemma set_group_keys: "g \<in> set (group_keys df) \<longleftrightarrow> (\<exists>r\<in>set df. Region r = Some g)"
  by (simp add: group_keys_def set_map_filter_iff)

lemma groupby_agg_iff:
  "s \<in> set (groupby_agg df) \<longleftrightarrow>
     stats_Region s \<in> set (group_keys df) \<and> Count s = group_count df (stats_Region s)"
  by (cases s) (auto simp: groupby_agg_def)

lemma group_count_pos_key:
  assumes "0 < group_count df g"
  shows "g \<in> set (group_keys df)"
proof -
  have "filter (\<lambda>r. Region r = Some g \<and> notna (xM r)) df \<noteq> []"
    using assms by (auto simp: group_count_def)
  then obtain r where "r \<in> set df" and "Region r = Some g"
    by (metis (mono_tags, lifting) filter_False)
  then show ?thesis by (auto simp: set_group_keys)
qed

text \<open>
  The rows of the statistics table after the threshold: one for each region with ten or
  more rows of non-null magnitude, carrying that number.
\<close>

lemma df_region_stats_iff:
  "s \<in> set (df_region_stats df) \<longleftrightarrow>
     10 \<le> group_count df (stats_Region s) \<and> Count s = group_count df (stats_Region s)"
proof -
  have "10 \<le> group_count df (stats_Region s) \<Longrightarrow> stats_Region s \<in> set (group_keys df)"
    by (rule group_count_pos_key) simp
  then show ?thesis
    by (auto simp: df_region_stats_def groupby_agg_iff)
qed

lemma set_nlargest_subset: "set (nlargest n stats) \<subseteq> set stats"
  using set_take_subset [of n "sort_key (\<lambda>s. - int (Count s)) stats"]
  by (simp add: nlargest_def)

lemma nlargest_all: "length stats \<le> n \<Longrightarrow> set (nlargest n stats) = set stats"
  by (simp add: nlargest_def)

lemma length_nlargest: "length (nlargest n stats) = min n (length stats)"
  by (simp add: nlargest_def min.commute)

lemma nlargest_dominates:
  assumes a: "a \<in> set (nlargest n stats)" and b: "b \<in> set stats" "b \<notin> set (nlargest n stats)"
  shows "Count b \<le> Count a"
proof -
  let ?f = "\<lambda>s. - int (Count s)"
  let ?xs = "sort_key ?f stats"
  have "set ?xs = set (take n ?xs) \<union> set (drop n ?xs)"
    by (metis append_take_drop_id set_append)
  then have bd: "b \<in> set (drop n ?xs)"
    using b by (auto simp: nlargest_def)
  have "sorted (map ?f (take n ?xs @ drop n ?xs))"
    by (simp only: append_take_drop_id sorted_sort_key)
  then have "\<forall>x\<in>set (map ?f (take n ?xs)). \<forall>y\<in>set (map ?f (drop n ?xs)). x \<le> y"
    unfolding map_append sorted_append by blast
  moreover have "?f a \<in> set (map ?f (take n ?xs))"
    using a by (simp add: nlargest_def)
  moreover have "?f b \<in> set (map ?f (drop n ?xs))"
    using bd by simp
  ultimately have "?f a \<le> ?f b"
    by blast
  then show ?thesis by simp
qed

text \<open>The statistics of the two sample views.\<close>

lemma map_filter_append:
  "List.map_filter f (xs @ ys) = List.map_filter f xs @ List.map_filter f ys"
  by (induction xs) (auto split: option.splits)

lemma map_filter_replicate:
  "List.map_filter f (replicate n x) = (case f x of None \<Rightarrow> [] | Some y \<Rightarrow> replicate n y)"
  by (induction n) (auto split: option.splits)

lemma remdups_replicate_append:
  "0 < n \<Longrightarrow> remdups (replicate n x @ ys) = (if x \<in> set ys then remdups ys else x # remdups ys)"
  by (induction n) auto

lemma remdups_replicate: "0 < n \<Longrightarrow> remdups (replicate n x) = [x]"
  using remdups_replicate_append [of n x "[]"] by simp

lemma Region_sample_quake: "Region (sample_quake g) = Some g"
  and xM_sample_quake: "xM (sample_quake g) = Num 4.1"
  by (simp_all add: sample_quake_def)

lemma group_count_append: "group_count (xs @ ys) g = group_count xs g + group_count ys g"
  by (simp add: group_count_def)

lemma group_count_concat:
  "group_count (concat xss) g = sum_list (map (\<lambda>xs. group_count xs g) xss)"
  by (induction xss) (simp_all add: group_count_append, simp add: group_count_def)

lemma group_count_replicate:
  "group_count (replicate n (sample_quake h)) g = (if h = g then n else 0)"
  by (simp add: group_count_def Region_sample_quake xM_sample_quake notna_def)

lemma group_count_single:
  "group_count [sample_quake h] g = (if h = g then 1 else 0)"
  by (simp add: group_count_def Region_sample_quake xM_sample_quake notna_def)

lemma small_counts:
  "group_count small_view ''Golcuk'' = 9" "group_count small_view ''Ercis'' = 10"
  by (simp_all add: small_view_def group_count_append group_count_replicate)

lemma small_keys: "group_keys small_view = [''Ercis'', ''Golcuk'']"
  unfolding group_keys_def small_view_def
  by (simp add: map_filter_append map_filter_replicate remdups_replicate_append
      remdups_replicate Region_sample_quake)

lemma small_stats: "df_region_stats small_view = [\<lparr>stats_Region = ''Ercis'', Count = 10\<rparr>]"
  unfolding df_region_stats_def groupby_agg_def small_keys by (simp add: small_counts)

lemma wide_keys: "group_keys wide_view =
       [''Adana'', ''Agri'', ''Amasya'', ''Ankara'', ''Antalya'', ''Aydin'', ''Balikesir'',
        ''Bingol'', ''Bitlis'', ''Bolu'', ''Burdur'', ''Bursa'', ''Canakkale'', ''Denizli'',
        ''Duzce'', ''Elazig'', ''Erzincan'', ''Erzurum'', ''Hakkari'', ''Hatay'', ''Izmir'',
        ''Kutahya'', ''Malatya'', ''Manisa'', ''Mugla'', ''Van'']"
  unfolding group_keys_def wide_view_def
  by (simp add: map_filter_append map_filter_replicate remdups_replicate_append
      Region_sample_quake)

lemma wide_stats: "df_region_stats wide_view =
   map (\<lambda>g. \<lparr>stats_Region = g, Count = 10\<rparr>)
       [''Adana'', ''Agri'', ''Amasya'', ''Ankara'', ''Antalya'', ''Aydin'', ''Balikesir'',
        ''Bingol'', ''Bitlis'', ''Bolu'', ''Burdur'', ''Bursa'', ''Canakkale'', ''Denizli'',
        ''Duzce'', ''Elazig'', ''Erzincan'', ''Erzurum'', ''Hakkari'', ''Hatay'', ''Izmir'',
        ''Kutahya'', ''Malatya'', ''Manisa'', ''Mugla'']
   @ [\<lparr>stats_Region = ''Van'', Count = 11\<rparr>]"
  unfolding df_region_stats_def groupby_agg_def wide_keys
  by (simp add: wide_view_def group_count_append group_count_concat group_count_replicate
      group_count_single)

lemma wide_treemap: "treemap_rows wide_view =
   \<lparr>stats_Region = ''Van'', Count = 11\<rparr> #
   map (\<lambda>g. \<lparr>stats_Region = g, Count = 10\<rparr>)
       [''Adana'', ''Agri'', ''Amasya'', ''Ankara'', ''Antalya'', ''Aydin'', ''Balikesir'',
        ''Bingol'', ''Bitlis'', ''Bolu'', ''Burdur'', ''Bursa'', ''Canakkale'', ''Denizli'',
        ''Duzce'', ''Elazig'', ''Erzincan'', ''Erzurum'', ''Hakkari'', ''Hatay'', ''Izmir'',
        ''Kutahya'', ''Malatya'', ''Manisa'']"
  unfolding treemap_rows_def wide_stats nlargest_def by simp

text \<open>
  C7. A region whose group count is below ten, nine for one, is in neither the statistics
  table nor the rows given to the treemap. A region whose group count is exactly ten
  passes the threshold, and is among the rows given to the treemap when at most
  twenty-five regions pass it.
\<close>

theorem count_threshold:
  "(group_count df g < 10 \<longrightarrow>
      g \<notin> stats_Region ` set (df_region_stats df) \<and> g \<notin> stats_Region ` set (treemap_rows df))
   \<and> (group_count df g = 10 \<longrightarrow>
      \<lparr>stats_Region = g, Count = 10\<rparr> \<in> set (df_region_stats df))
   \<and> (group_count df g = 10 \<and> length (df_region_stats df) \<le> 25 \<longrightarrow>
      \<lparr>stats_Region = g, Count = 10\<rparr> \<in> set (treemap_rows df))"
proof -
  have sub: "set (treemap_rows df) \<subseteq> set (df_region_stats df)"
    unfolding treemap_rows_def by (rule set_nlargest_subset)
  have low: "g \<notin> stats_Region ` set (df_region_stats df)" if "group_count df g < 10"
    using that by (auto simp: df_region_stats_iff)
  have ten: "\<lparr>stats_Region = g, Count = 10\<rparr> \<in> set (df_region_stats df)"
    if "group_count df g = 10"
    using that by (simp add: df_region_stats_iff)
  have all: "set (treemap_rows df) = set (df_region_stats df)"
    if "length (df_region_stats df) \<le> 25"
    unfolding treemap_rows_def using that by (rule nlargest_all)
  show ?thesis using sub low ten all by blast
qed

theorem count_threshold_witness:
  "group_count small_view ''Golcuk'' = 9
   \<and> ''Golcuk'' \<notin> stats_Region ` set (df_region_stats small_view)
   \<and> ''Golcuk'' \<notin> stats_Region ` set (treemap_rows small_view)
   \<and> group_count small_view ''Ercis'' = 10
   \<and> length (df_region_stats small_view) \<le> 25
   \<and> \<lparr>stats_Region = ''Ercis'', Count = 10\<rparr> \<in> set (df_region_stats small_view)
   \<and> \<lparr>stats_Region = ''Ercis'', Count = 10\<rparr> \<in> set (treemap_rows small_view)"
proof -
  have l: "length (df_region_stats small_view) \<le> 25"
    unfolding small_stats by simp
  show ?thesis
    using count_threshold [of small_view "''Golcuk''"] count_threshold [of small_view "''Ercis''"]
      small_counts l
    by simp
qed

text \<open>
  C8. The rows given to the treemap are at most twenty-five: all the groups that pass
  the threshold when there are no more than twenty-five, and otherwise twenty-five of
  them such that no group left out has a larger count than a group kept.
\<close>

theorem at_most_25_groups:
  "length (treemap_rows df) \<le> 25
   \<and> length (treemap_rows df) = min 25 (length (df_region_stats df))
   \<and> set (treemap_rows df) \<subseteq> set (df_region_stats df)
   \<and> (\<forall>a \<in> set (treemap_rows df). \<forall>b \<in> set (df_region_stats df) - set (treemap_rows df).
        Count b \<le> Count a)"
  unfolding treemap_rows_def
  using set_nlargest_subset [of 25 "df_region_stats df"]
    nlargest_dominates [of _ 25 "df_region_stats df"]
  by (auto simp: length_nlargest)

theorem at_most_25_groups_witness:
  "length (df_region_stats wide_view) = 26
   \<and> length (treemap_rows wide_view) = 25
   \<and> \<lparr>stats_Region = ''Van'', Count = 11\<rparr> \<in> set (treemap_rows wide_view)
   \<and> \<lparr>stats_Region = ''Mugla'', Count = 10\<rparr> \<in> set (df_region_stats wide_view)
   \<and> \<lparr>stats_Region = ''Mugla'', Count = 10\<rparr> \<notin> set (treemap_rows wide_view)
   \<and> Count \<lparr>stats_Region = ''Mugla'', Count = 10\<rparr>
       \<le> Count \<lparr>stats_Region = ''Van'', Count = 11\<rparr>"
proof -
  have n: "length (df_region_stats wide_view) = 26"
    unfolding wide_stats by simp
  have a: "\<lparr>stats_Region = ''Van'', Count = 11\<rparr> \<in> set (treemap_rows wide_view)"
    unfolding wide_treemap by simp
  have b: "\<lparr>stats_Region = ''Mugla'', Count = 10\<rparr> \<in> set (df_region_stats wide_view)"
    unfolding wide_stats by simp
  have c: "\<lparr>stats_Region = ''Mugla'', Count = 10\<rparr> \<notin> set (treemap_rows wide_view)"
    unfolding wide_treemap by simp
  from at_most_25_groups [of wide_view] a b c n show ?thesis
    by auto
qed

end
